theory Spec2Isabelle
  imports Complex_Main
begin

section \<open>JavaScript values and chat messages\<close>

text \<open>
  The adapter receives its turn as two \<^verbatim>\<open>Record<string, any>\<close> maps, so the
  values it inspects are arbitrary JavaScript values. \<open>jsval\<close> covers the JSON-like
  values and the instances of the message classes of the orchestration library
  (\<^verbatim>\<open>BaseMessage\<close> and its subclasses). Numbers are the integral ones and NaN,
  which is all that truthiness distinguishes. On each of these values
  \<^verbatim>\<open>JSON.stringify\<close> returns a string, unless the value is \<^verbatim>\<open>undefined\<close>.

  A message instance carries its class, its content, its structured tool calls and
  its \<^verbatim>\<open>additional_kwargs\<close>. The adapter never reads or writes a field of a message;
  it only tests the class.
\<close>

datatype msg_class = Human | AI | Tool | System

datatype jsval =
    JUndefined
  | JNull
  | JBool bool
  | JNum int
  | JNaN
  | JStr string
  | JArr "jsval list"
  | JObj "(string \<times> jsval) list"
  | JMsg message
and message =
    BaseMessage (msg_type: msg_class) (content: jsval)
      (tool_calls: "tool_call list") (additional_kwargs: jsval)
and tool_call =
    ToolCall (tc_name: string) (tc_args: jsval) (tc_id: "string option")

text \<open>
  \<open>HumanMessage x\<close> and \<open>AIMessage x\<close> are the messages of that class with the
  content \<open>x\<close>, no tool call and the empty object as \<^verbatim>\<open>additional_kwargs\<close>: what
  \<^verbatim>\<open>new HumanMessage(x)\<close> and \<^verbatim>\<open>new AIMessage(x)\<close> build from a string \<open>x\<close>. The
  source constructs an AI message from strings only; what the constructor of the human
  message does with an argument that is not a string is \<open>new_HumanMessage\<close> below.
\<close>

definition HumanMessage :: "jsval \<Rightarrow> message" where
  "HumanMessage x = BaseMessage Human x [] (JObj [])"

definition AIMessage :: "jsval \<Rightarrow> message" where
  "AIMessage x = BaseMessage AI x [] (JObj [])"

text \<open>\<^verbatim>\<open>v instanceof AIMessage\<close> and \<^verbatim>\<open>v instanceof BaseMessage\<close>.\<close>

fun instanceof_AIMessage :: "jsval \<Rightarrow> bool" where
  "instanceof_AIMessage (JMsg m) = (msg_type m = AI)"
| "instanceof_AIMessage _ = False"

fun instanceof_BaseMessage :: "jsval \<Rightarrow> bool" where
  "instanceof_BaseMessage (JMsg m) = True"
| "instanceof_BaseMessage _ = False"

text \<open>
  JavaScript truthiness, as the conditions \<^verbatim>\<open>if (k && r[k])\<close> and
  \<^verbatim>\<open>!input?.chatHistory\<close> use it: \<^verbatim>\<open>undefined\<close>, \<^verbatim>\<open>null\<close>, \<^verbatim>\<open>false\<close>, \<^verbatim>\<open>0\<close>,
  \<^verbatim>\<open>NaN\<close> and the empty string are falsy, every other value is truthy (arrays and
  objects also when empty).
\<close>

fun truthy :: "jsval \<Rightarrow> bool" where
  "truthy JUndefined = False"
| "truthy JNull = False"
| "truthy (JBool b) = b"
| "truthy (JNum n) = (n \<noteq> 0)"
| "truthy JNaN = False"
| "truthy (JStr s) = (s \<noteq> [])"
| "truthy (JArr xs) = True"
| "truthy (JObj kvs) = True"
| "truthy (JMsg m) = True"

text \<open>
  What a call can throw: an \<^verbatim>\<open>Error\<close> with its message, or a \<^verbatim>\<open>TypeError\<close> of
  the runtime, whose text is left out.
\<close>

datatype error = Error string | TypeError

text \<open>
  The properties \<^verbatim>\<open>content\<close> and \<^verbatim>\<open>additional_kwargs\<close> of a value that is read as
  the object of a message's fields: a plain object has them when it has an entry of
  that name, a message has its own, an array has neither.
\<close>

fun fields_content :: "jsval \<Rightarrow> jsval" where
  "fields_content (JObj kvs) = (case map_of kvs ''content'' of None \<Rightarrow> JUndefined | Some v \<Rightarrow> v)"
| "fields_content (JMsg m) = content m"
| "fields_content v = JUndefined"

fun fields_additional_kwargs :: "jsval \<Rightarrow> jsval" where
  "fields_additional_kwargs (JObj kvs) =
     (case map_of kvs ''additional_kwargs'' of None \<Rightarrow> JUndefined | Some v \<Rightarrow> v)"
| "fields_additional_kwargs (JMsg m) = additional_kwargs m"
| "fields_additional_kwargs v = JUndefined"

definition human_of_fields :: "jsval \<Rightarrow> message" where
  "human_of_fields fields =
     BaseMessage Human (fields_content fields) []
       (if truthy (fields_additional_kwargs fields) then fields_additional_kwargs fields
        else JObj [])"

text \<open>
  \<^verbatim>\<open>new HumanMessage(x)\<close>, the constructor of the message library, on each kind of
  argument. A string becomes the content. An object, an array or a message is read
  as the object of the fields: the content is its \<^verbatim>\<open>content\<close> (\<^verbatim>\<open>undefined\<close> when it
  has none) and \<^verbatim>\<open>additional_kwargs\<close> is its own when truthy, the empty object
  otherwise. On a number, a boolean, \<^verbatim>\<open>null\<close> or \<^verbatim>\<open>undefined\<close> the constructor
  throws a \<^verbatim>\<open>TypeError\<close>: it reads and sets \<^verbatim>\<open>additional_kwargs\<close> on its argument.
\<close>

fun new_HumanMessage :: "jsval \<Rightarrow> error + message" where
  "new_HumanMessage (JStr s) = Inr (HumanMessage (JStr s))"
| "new_HumanMessage (JObj kvs) = Inr (human_of_fields (JObj kvs))"
| "new_HumanMessage (JArr vs) = Inr (human_of_fields (JArr vs))"
| "new_HumanMessage (JMsg m) = Inr (human_of_fields (JMsg m))"
| "new_HumanMessage v = Inl TypeError"

text \<open>
  A \<^verbatim>\<open>Record<string, any>\<close> is a map from property names to values; reading a
  property that is not there gives \<^verbatim>\<open>undefined\<close>.
\<close>

type_synonym jsrecord = "string \<rightharpoonup> jsval"

definition property :: "jsrecord \<Rightarrow> string \<Rightarrow> jsval" where
  "property r k = (case r k of None \<Rightarrow> JUndefined | Some v \<Rightarrow> v)"

text \<open>\<^verbatim>\<open>a ?? b\<close> on an optional value.\<close>

definition nullish :: "'a option \<Rightarrow> 'a \<Rightarrow> 'a" where
  "nullish a b = (case a of None \<Rightarrow> b | Some v \<Rightarrow> v)"

section \<open>The message log\<close>

text \<open>
  \<^verbatim>\<open>new PostgresChatMessageHistory({ pool, sessionId, tableName })\<close>: the handle to
  one session's log. The pool is the connection to the database; it is named by a
  number.
\<close>

record PostgresChatMessageHistory =
  pool :: nat
  sessionId :: string
  tableName :: string

datatype log_call =
    GetMessages PostgresChatMessageHistory
  | AddMessage PostgresChatMessageHistory message
  | AddMessages PostgresChatMessageHistory "message list"
  | Clear PostgresChatMessageHistory

text \<open>
  Modelled from the spec: the database behind the chat history store, which is not
  part of the source file. \<open>tables\<close> holds, for each table name and session id, that
  session's messages in insertion order (section 3: one ordered log for each pair of
  table name and session id). \<open>faults\<close> decides the outcome of the calls to come:
  each call to the log takes the head of the list, fails with the error found there if
  there is one, and succeeds otherwise (also when the list is empty). \<open>calls\<close>
  records every call made on a log, in order.
\<close>

record world =
  tables :: "string \<times> string \<Rightarrow> message list"
  faults :: "error option list"
  calls :: "log_call list"

type_synonym 'a io = "world \<Rightarrow> (error + 'a) \<times> world"

text \<open>
  Sequencing of awaited calls: \<open>io_bind f g\<close> runs \<open>f\<close>, and runs \<open>g\<close> on its result
  unless \<open>f\<close> threw, in which case the error is the outcome and \<open>g\<close> is not run.
  \<open>io_return\<close> returns a value and \<open>io_throw\<close> throws an error; neither touches the
  world.
\<close>

definition io_return :: "'a \<Rightarrow> 'a io" where
  "io_return x w = (Inr x, w)"

definition io_throw :: "error \<Rightarrow> 'a io" where
  "io_throw e w = (Inl e, w)"

definition io_bind :: "'a io \<Rightarrow> ('a \<Rightarrow> 'b io) \<Rightarrow> 'b io" where
  "io_bind f g w = (case f w of (Inl e, w') \<Rightarrow> (Inl e, w') | (Inr x, w') \<Rightarrow> g x w')"

text \<open>
  Modelled from the spec: the log a handle stands for is the one of its table name
  and session id (section 3); the store itself is not part of the source file.
\<close>

definition session_key :: "PostgresChatMessageHistory \<Rightarrow> string \<times> string" where
  "session_key h = (tableName h, sessionId h)"

text \<open>
  Modelled from the spec: the outcome of the next call to the store, and the trace
  and the outcomes left once a call has been made. The store is not part of the source
  file; section 7 has its failures come from outside (connectivity, the table, the
  serialization).
\<close>

definition next_fault :: "world \<Rightarrow> error option" where
  "next_fault w = (case faults w of [] \<Rightarrow> None | f # fs \<Rightarrow> f)"

definition issue :: "log_call \<Rightarrow> world \<Rightarrow> world" where
  "issue c w = w\<lparr>faults := tl (faults w), calls := calls w @ [c]\<rparr>"

text \<open>
  Modelled from the spec: \<^verbatim>\<open>getMessages\<close> of the chat history store (class
  \<^verbatim>\<open>PostgresChatMessageHistory\<close> of the community library, not part of the source
  file). Section 6: it returns the ordered sequence of the session's messages; they
  come back as they were stored.
\<close>

definition getMessages :: "PostgresChatMessageHistory \<Rightarrow> (message list) io" where
  "getMessages h w =
     (case next_fault w of
        Some e \<Rightarrow> (Inl e, issue (GetMessages h) w)
      | None \<Rightarrow> (Inr (tables w (session_key h)), issue (GetMessages h) w))"

text \<open>
  Modelled from the spec: \<^verbatim>\<open>addMessage\<close> of the chat history store, not part of the
  source file. Section 6: it appends the message to the session's log. A call that
  fails leaves every log as it was (section 7).
\<close>

definition addMessage :: "PostgresChatMessageHistory \<Rightarrow> message \<Rightarrow> unit io" where
  "addMessage h m w =
     (case next_fault w of
        Some e \<Rightarrow> (Inl e, issue (AddMessage h m) w)
      | None \<Rightarrow>
          (Inr (), issue (AddMessage h m)
             (w\<lparr>tables := (tables w)(session_key h := tables w (session_key h) @ [m])\<rparr>)))"

text \<open>
  Modelled from the spec: \<^verbatim>\<open>addMessages\<close> of the chat history store, not part of the
  source file. Section 6: it appends the sequence, in order, to the session's log, as
  one call. A call that fails leaves every log as it was.
\<close>

definition addMessages :: "PostgresChatMessageHistory \<Rightarrow> message list \<Rightarrow> unit io" where
  "addMessages h ms w =
     (case next_fault w of
        Some e \<Rightarrow> (Inl e, issue (AddMessages h ms) w)
      | None \<Rightarrow>
          (Inr (), issue (AddMessages h ms)
             (w\<lparr>tables := (tables w)(session_key h := tables w (session_key h) @ ms)\<rparr>)))"

text \<open>
  Modelled from the spec: \<^verbatim>\<open>clear\<close> of the chat history store, not part of the
  source file. Sections 4.1 and 8: it removes all messages of the session and touches
  no other session.
\<close>

definition clear_log :: "PostgresChatMessageHistory \<Rightarrow> unit io" where
  "clear_log h w =
     (case next_fault w of
        Some e \<Rightarrow> (Inl e, issue (Clear h) w)
      | None \<Rightarrow> (Inr (), issue (Clear h) (w\<lparr>tables := (tables w)(session_key h := [])\<rparr>)))"

section \<open>PostgresToolAwareMemory\<close>

text \<open>
  The fields of the class. \<open>inputKey\<close> and \<open>outputKey\<close> have the type
  \<^verbatim>\<open>string | undefined\<close>.
\<close>

record PostgresToolAwareMemory =
  history :: PostgresChatMessageHistory
  memoryKey :: string
  inputKey :: "string option"
  outputKey :: "string option"
  returnMessages :: bool
  chatHistory :: PostgresChatMessageHistory

text \<open>
  The argument of the constructor: every field may be left out, and so may the
  argument itself.
\<close>

record memory_input =
  in_memoryKey :: "string option"
  in_inputKey :: "string option"
  in_outputKey :: "string option"
  in_chatHistory :: "PostgresChatMessageHistory option"
  in_returnMessages :: "bool option"

text \<open>
  The constructor. \<^verbatim>\<open>input?.f\<close> is \<open>Option.bind input f\<close>. The class initialisers
  give \<open>inputKey\<close> and \<open>outputKey\<close> the values \<^verbatim>\<open>'input'\<close> and \<^verbatim>\<open>'output'\<close> before the
  body runs, which is what \<^verbatim>\<open>?? this.inputKey\<close> falls back to. Without a history the
  constructor throws.
\<close>

definition new_PostgresToolAwareMemory ::
  "memory_input option \<Rightarrow> error + PostgresToolAwareMemory" where
  "new_PostgresToolAwareMemory input =
     (case Option.bind input in_chatHistory of
        None \<Rightarrow>
          Inl (Error ''PostgresChatMessageHistory instance is required for PostgresToolAwareMemory'')
      | Some h \<Rightarrow>
          Inr \<lparr> history = h,
                memoryKey = nullish (Option.bind input in_memoryKey) ''chat_history'',
                inputKey = Some (nullish (Option.bind input in_inputKey) ''input''),
                outputKey = Some (nullish (Option.bind input in_outputKey) ''output''),
                returnMessages = nullish (Option.bind input in_returnMessages) True,
                chatHistory = h \<rparr>)"

text \<open>The getter \<^verbatim>\<open>memoryKeys\<close>.\<close>

definition memoryKeys :: "PostgresToolAwareMemory \<Rightarrow> string list" where
  "memoryKeys this = [memoryKey this]"

text \<open>
  \<^verbatim>\<open>loadMemoryVariables\<close>: the messages of the history, under the memory key. The
  argument is not used.
\<close>

definition loadMemoryVariables :: "PostgresToolAwareMemory \<Rightarrow> jsrecord \<Rightarrow> jsrecord io" where
  "loadMemoryVariables this vals =
     io_bind (getMessages (history this))
       (\<lambda>messages. io_return [memoryKey this \<mapsto> JArr (map JMsg messages)])"

text \<open>The messages held by an array whose every element is a message.\<close>

fun messages_of :: "jsval list \<Rightarrow> message list" where
  "messages_of [] = []"
| "messages_of (JMsg m # vs) = m # messages_of vs"
| "messages_of (v # vs) = messages_of vs"

text \<open>
  The first statement of \<^verbatim>\<open>saveContext\<close>: add the input message. The condition
  \<^verbatim>\<open>this.inputKey && inputs[this.inputKey]\<close> holds when the key is neither
  \<^verbatim>\<open>undefined\<close> nor the empty string and the value under it is truthy. The message
  is constructed before the log is called, so when the constructor throws no call
  is made.
\<close>

definition saveInput :: "PostgresToolAwareMemory \<Rightarrow> jsrecord \<Rightarrow> unit io" where
  "saveInput this inputs =
     (case inputKey this of
        None \<Rightarrow> io_return ()
      | Some k \<Rightarrow>
          if k \<noteq> [] \<and> truthy (property inputs k)
          then (case new_HumanMessage (property inputs k) of
                  Inl e \<Rightarrow> io_throw e
                | Inr message \<Rightarrow> addMessage (history this) message)
          else io_return ())"

text \<open>
  The branches of the second statement of \<^verbatim>\<open>saveContext\<close> on \<^verbatim>\<open>outputValue\<close>,
  tried in the order of the source: a string (\<^verbatim>\<open>typeof outputValue === 'string'\<close>),
  an instance of \<^verbatim>\<open>AIMessage\<close>, an array whose every element is an instance of
  \<^verbatim>\<open>BaseMessage\<close>, anything else. \<open>stringify\<close> is \<^verbatim>\<open>JSON.stringify\<close>, a builtin
  of the language, on the values that reach the last branch.
\<close>

definition addOutput ::
  "(jsval \<Rightarrow> string) \<Rightarrow> PostgresChatMessageHistory \<Rightarrow> jsval \<Rightarrow> unit io" where
  "addOutput stringify h outputValue =
     (case outputValue of
        JStr s \<Rightarrow> addMessage h (AIMessage outputValue)
      | JMsg m \<Rightarrow>
          if instanceof_AIMessage outputValue
          then addMessage h m
          else addMessage h (AIMessage (JStr (stringify outputValue)))
      | JArr vs \<Rightarrow>
          if list_all instanceof_BaseMessage vs
          then addMessages h (messages_of vs)
          else addMessage h (AIMessage (JStr (stringify outputValue)))
      | _ \<Rightarrow> addMessage h (AIMessage (JStr (stringify outputValue))))"

text \<open>
  The second statement of \<^verbatim>\<open>saveContext\<close>: add the output message or messages,
  under the condition \<^verbatim>\<open>this.outputKey && outputs[this.outputKey]\<close>.
\<close>

definition saveOutput ::
  "(jsval \<Rightarrow> string) \<Rightarrow> PostgresToolAwareMemory \<Rightarrow> jsrecord \<Rightarrow> unit io" where
  "saveOutput stringify this outputs =
     (case outputKey this of
        None \<Rightarrow> io_return ()
      | Some k \<Rightarrow>
          if k \<noteq> [] \<and> truthy (property outputs k)
          then addOutput stringify (history this) (property outputs k)
          else io_return ())"

text \<open>\<^verbatim>\<open>saveContext\<close>: the two statements, each awaited, one after the other.\<close>

definition saveContext ::
  "(jsval \<Rightarrow> string) \<Rightarrow> PostgresToolAwareMemory \<Rightarrow> jsrecord \<Rightarrow> jsrecord \<Rightarrow> unit io" where
  "saveContext stringify this inputs outputs =
     io_bind (saveInput this inputs) (\<lambda>_. saveOutput stringify this outputs)"

text \<open>\<^verbatim>\<open>clear\<close>: \<^verbatim>\<open>await this.history.clear()\<close>.\<close>

definition clear :: "PostgresToolAwareMemory \<Rightarrow> unit io" where
  "clear this = clear_log (history this)"

section \<open>The node entry point\<close>

text \<open>
  The options \<^verbatim>\<open>BufferMemory\<close> and \<^verbatim>\<open>BufferWindowMemory\<close> of the memory library are
  constructed with; \<open>k\<close> is there only when \<^verbatim>\<open>kOptions\<close> holds it.
\<close>

record buffer_input =
  buf_memoryKey :: string
  buf_chatHistory :: PostgresChatMessageHistory
  buf_returnMessages :: bool
  buf_inputKey :: string
  buf_outputKey :: string
  buf_k :: "int option"

datatype memory =
    BufferMemory buffer_input
  | BufferWindowMemory buffer_input
  | ToolAwareMemory PostgresToolAwareMemory

text \<open>
  What \<^verbatim>\<open>supplyData\<close> obtains from its host before it chooses: the version of the
  node, the parameters \<^verbatim>\<open>tableName\<close> and \<^verbatim>\<open>supportToolCalls\<close> (absent when not
  set), the parameter \<^verbatim>\<open>contextWindowLength\<close>, the session id that
  \<^verbatim>\<open>getSessionId\<close> returned and the pool that \<^verbatim>\<open>configurePostgres\<close> returned.
  When one of these calls of the host throws, \<^verbatim>\<open>supplyData\<close> ends there, before it
  chooses a memory. The versions of the node are 1, 1.1, 1.2, 1.3 and 1.4; they are
  rationals here.
\<close>

record node_context =
  typeVersion :: rat
  param_tableName :: "string option"
  param_supportToolCalls :: "bool option"
  param_contextWindowLength :: int
  session :: string
  db_pool :: nat

text \<open>\<^verbatim>\<open>this.getNodeParameter(name, itemIndex, fallback)\<close>.\<close>

definition getNodeParameter :: "'a option \<Rightarrow> 'a \<Rightarrow> 'a" where
  "getNodeParameter p fallback = (case p of None \<Rightarrow> fallback | Some v \<Rightarrow> v)"

record 'r SupplyData =
  response :: 'r

text \<open>
  \<^verbatim>\<open>supplyData\<close>. \<open>logWrapper\<close> is the host's wrapper around the memory it is given.
\<close>

definition supplyData :: "(memory \<Rightarrow> 'r) \<Rightarrow> node_context \<Rightarrow> error + 'r SupplyData" where
  "supplyData logWrapper ctx =
     (let tableName = getNodeParameter (param_tableName ctx) ''n8n_chat_histories'';
          sessionId = session ctx;
          supportToolCalls = getNodeParameter (param_supportToolCalls ctx) False;
          pgChatHistory = \<lparr> pool = db_pool ctx, sessionId = sessionId, tableName = tableName \<rparr>
      in
      if typeVersion ctx \<ge> 1.4 \<and> supportToolCalls
      then
        (case new_PostgresToolAwareMemory
                (Some \<lparr> in_memoryKey = Some ''chat_history'',
                         in_inputKey = Some ''input'',
                         in_outputKey = Some ''output'',
                         in_chatHistory = Some pgChatHistory,
                         in_returnMessages = Some True \<rparr>) of
           Inl e \<Rightarrow> Inl e
         | Inr memory \<Rightarrow> Inr \<lparr> response = logWrapper (ToolAwareMemory memory) \<rparr>)
      else
        (let memClass = (if typeVersion ctx < 1.1 then BufferMemory else BufferWindowMemory);
             kOptions = (if typeVersion ctx < 1.1 then None
                         else Some (param_contextWindowLength ctx));
             memory = memClass \<lparr> buf_memoryKey = ''chat_history'',
                                  buf_chatHistory = pgChatHistory,
                                  buf_returnMessages = True,
                                  buf_inputKey = ''input'',
                                  buf_outputKey = ''output'',
                                  buf_k = kOptions \<rparr>
         in Inr \<lparr> response = logWrapper memory \<rparr>))"

section \<open>The contract of \<^verbatim>\<open>saveContext\<close> in the words of the specification\<close>







section \<open>Sample data\<close>

text \<open>
  A session, the adapter that \<^verbatim>\<open>supplyData\<close> builds for it, a database with no
  message and no failure to come, an AI message that asks for a tool call and the
  message with the tool's result; a database with two sessions, one whose second call
  fails, and the context of a node of a given version.
\<close>

definition sample_history :: PostgresChatMessageHistory where
  "sample_history = \<lparr> pool = 0, sessionId = ''s1'', tableName = ''n8n_chat_histories'' \<rparr>"

definition sample_memory :: PostgresToolAwareMemory where
  "sample_memory =
     \<lparr> history = sample_history, memoryKey = ''chat_history'', inputKey = Some ''input'',
       outputKey = Some ''output'', returnMessages = True, chatHistory = sample_history \<rparr>"

definition empty_world :: world where
  "empty_world = \<lparr> tables = (\<lambda>_. []), faults = [], calls = [] \<rparr>"



definition two_sessions_world :: world where
  "two_sessions_world =
     \<lparr> tables = (\<lambda>_. [])
          ((''n8n_chat_histories'', ''s1'') := [HumanMessage (JStr ''Hello'')],
           (''n8n_chat_histories'', ''s2'') := [HumanMessage (JStr ''Bonjour'')]),
       faults = [], calls = [] \<rparr>"

definition failing_world :: world where
  "failing_world =
     \<lparr> tables = (\<lambda>_. []), faults = [None, Some (Error ''connection terminated'')],
       calls = [] \<rparr>"

definition sample_context :: "rat \<Rightarrow> bool \<Rightarrow> node_context" where
  "sample_context version flag =
     \<lparr> typeVersion = version, param_tableName = None, param_supportToolCalls = Some flag,
       param_contextWindowLength = 5, session = ''s1'', db_pool = 0 \<rparr>"

section \<open>Auxiliary facts\<close>










lemma messages_of_map [simp]: "messages_of (map JMsg ms) = ms"
  by (induction ms) simp_all

lemma all_messages_map [simp]: "list_all instanceof_BaseMessage (map JMsg ms)"
  by (induction ms) simp_all


lemma getMessages_ok:
  "faults w = [] \<Longrightarrow>
   getMessages h w = (Inr (tables w (session_key h)), w\<lparr>calls := calls w @ [GetMessages h]\<rparr>)"
  by (simp add: getMessages_def next_fault_def issue_def)

lemma loadMemoryVariables_ok:
  "faults w = [] \<Longrightarrow>
   loadMemoryVariables this vals w =
     (Inr [memoryKey this \<mapsto> JArr (map JMsg (tables w (session_key (history this))))],
      w\<lparr>calls := calls w @ [GetMessages (history this)]\<rparr>)"
  by (simp add: loadMemoryVariables_def io_bind_def io_return_def getMessages_ok)




lemma io_bind_return:
  "io_bind f io_return w = f w"
  by (cases "f w"; cases "fst (f w)") (auto simp add: io_bind_def io_return_def)


section \<open>The claims\<close>

text \<open>
  In the theorems below a key is set when it is \<open>Some k\<close> with \<open>k\<close> not empty, which
  is when the conditions \<^verbatim>\<open>this.inputKey && \<dots>\<close> and \<^verbatim>\<open>this.outputKey && \<dots>\<close> of
  \<^verbatim>\<open>saveContext\<close> let the value be looked at. The adapter that \<^verbatim>\<open>supplyData\<close> builds,
  the only one the module builds, has the keys \<^verbatim>\<open>'input'\<close> and \<^verbatim>\<open>'output'\<close>.
  \<open>faults w = []\<close> says that no call to the log fails. The first statement of
  \<^verbatim>\<open>saveContext\<close> returns when the input is skipped or is a string; it throws when
  the input is a truthy number or boolean, and the second statement is then not run.
\<close>





text \<open>
  C3. \<^verbatim>\<open>supplyData\<close> returns one memory, decided by the version and the flag: below
  version 1.1 a \<^verbatim>\<open>BufferMemory\<close> constructed without \<open>k\<close>; from version 1.1 on, when
  the version is below 1.4 or tool calls are not supported, a \<^verbatim>\<open>BufferWindowMemory\<close>
  constructed with \<open>k\<close> the context window length; from version 1.4 on with tool calls
  supported, the \<^verbatim>\<open>PostgresToolAwareMemory\<close>, which has no \<open>k\<close>. Exactly one of the
  three conditions holds.
\<close>

theorem supplyData_selects_memory:
  fixes ctx :: node_context and logWrapper :: "memory \<Rightarrow> 'r"
  defines "v \<equiv> typeVersion ctx"
    and "flag \<equiv> getNodeParameter (param_supportToolCalls ctx) False"
    and "h \<equiv> \<lparr> pool = db_pool ctx, sessionId = session ctx,
                tableName = getNodeParameter (param_tableName ctx) ''n8n_chat_histories'' \<rparr>"
  defines "opts \<equiv> \<lambda>k. \<lparr> buf_memoryKey = ''chat_history'', buf_chatHistory = h,
                buf_returnMessages = True, buf_inputKey = ''input'', buf_outputKey = ''output'',
                buf_k = k \<rparr>"
  shows "(v < 1.1 \<longrightarrow>
            supplyData logWrapper ctx = Inr \<lparr> response = logWrapper (BufferMemory (opts None)) \<rparr>)
       \<and> (v \<ge> 1.1 \<and> (v < 1.4 \<or> \<not> flag) \<longrightarrow>
            supplyData logWrapper ctx =
              Inr \<lparr> response = logWrapper
                      (BufferWindowMemory (opts (Some (param_contextWindowLength ctx)))) \<rparr>)
       \<and> (v \<ge> 1.4 \<and> flag \<longrightarrow>
            supplyData logWrapper ctx =
              Inr \<lparr> response = logWrapper
                      (ToolAwareMemory
                         \<lparr> history = h, memoryKey = ''chat_history'', inputKey = Some ''input'',
                           outputKey = Some ''output'', returnMessages = True,
                           chatHistory = h \<rparr>) \<rparr>)
       \<and> ((v < 1.1 \<and> \<not> (v \<ge> 1.1 \<and> (v < 1.4 \<or> \<not> flag)) \<and> \<not> (v \<ge> 1.4 \<and> flag))
          \<or> (\<not> v < 1.1 \<and> (v \<ge> 1.1 \<and> (v < 1.4 \<or> \<not> flag)) \<and> \<not> (v \<ge> 1.4 \<and> flag))
          \<or> (\<not> v < 1.1 \<and> \<not> (v \<ge> 1.1 \<and> (v < 1.4 \<or> \<not> flag)) \<and> (v \<ge> 1.4 \<and> flag)))"
  unfolding v_def flag_def h_def opts_def
  by (auto simp add: supplyData_def new_PostgresToolAwareMemory_def nullish_def Let_def)

theorem supplyData_selects_memory_witness:
  "(\<exists>opts. supplyData (\<lambda>m. m) (sample_context 1 True) =
             Inr \<lparr> response = BufferMemory opts \<rparr> \<and> buf_k opts = None) \<and>
   (\<exists>opts. supplyData (\<lambda>m. m) (sample_context 1.3 True) =
             Inr \<lparr> response = BufferWindowMemory opts \<rparr> \<and> buf_k opts = Some 5) \<and>
   (\<exists>opts. supplyData (\<lambda>m. m) (sample_context 1.4 False) =
             Inr \<lparr> response = BufferWindowMemory opts \<rparr> \<and> buf_k opts = Some 5) \<and>
   supplyData (\<lambda>m. m) (sample_context 1.4 True) =
     Inr \<lparr> response = ToolAwareMemory sample_memory \<rparr>"
  using supplyData_selects_memory [of "sample_context 1 True" "\<lambda>m. m"]
    supplyData_selects_memory [of "sample_context 1.3 True" "\<lambda>m. m"]
    supplyData_selects_memory [of "sample_context 1.4 False" "\<lambda>m. m"]
    supplyData_selects_memory [of "sample_context 1.4 True" "\<lambda>m. m"]
  by (simp add: sample_context_def sample_memory_def sample_history_def getNodeParameter_def)






text \<open>
  C6. When both halves of the turn are to be appended, the input message \<open>m\<close> has
  been constructed, the call for it succeeds and the call for the output fails with
  an error \<open>e\<close>, \<^verbatim>\<open>saveContext\<close> throws \<open>e\<close> itself, the log holds the input message
  and nothing of the output, and the log has been called twice and no more.
\<close>

theorem saveContext_not_atomic:
  assumes "inputKey this = Some ki" and "ki \<noteq> []" and "truthy (property inputs ki)"
    and "new_HumanMessage (property inputs ki) = Inr m"
    and "outputKey this = Some ko" and "ko \<noteq> []" and "truthy (property outputs ko)"
    and "faults w = None # Some e # fs"
  shows "fst (saveContext stringify this inputs outputs w) = Inl e \<and>
         tables (snd (saveContext stringify this inputs outputs w)) =
           (tables w)(session_key (history this) :=
              tables w (session_key (history this)) @ [m]) \<and>
         faults (snd (saveContext stringify this inputs outputs w)) = fs \<and>
         (\<exists>c. calls (snd (saveContext stringify this inputs outputs w)) =
               calls w @ [AddMessage (history this) m, c])"
  using assms
  by (cases "property outputs ko")
     (simp_all add: saveContext_def saveInput_def saveOutput_def addOutput_def io_bind_def
        addMessage_def addMessages_def next_fault_def issue_def)

theorem saveContext_not_atomic_witness:
  "inputKey sample_memory = Some ''input'' \<and> ''input'' \<noteq> [] \<and>
   truthy (property [''input'' \<mapsto> JStr ''Hello''] ''input'') \<and>
   new_HumanMessage (property [''input'' \<mapsto> JStr ''Hello''] ''input'') =
     Inr (HumanMessage (JStr ''Hello'')) \<and>
   outputKey sample_memory = Some ''output'' \<and> ''output'' \<noteq> [] \<and>
   truthy (property [''output'' \<mapsto> JStr ''Hi there''] ''output'') \<and>
   faults failing_world = None # Some (Error ''connection terminated'') # [] \<and>
   fst (saveContext (\<lambda>_. []) sample_memory [''input'' \<mapsto> JStr ''Hello'']
          [''output'' \<mapsto> JStr ''Hi there''] failing_world) =
     Inl (Error ''connection terminated'') \<and>
   tables (snd (saveContext (\<lambda>_. []) sample_memory [''input'' \<mapsto> JStr ''Hello'']
                  [''output'' \<mapsto> JStr ''Hi there''] failing_world))
     (''n8n_chat_histories'', ''s1'') = [HumanMessage (JStr ''Hello'')]"
  using saveContext_not_atomic
    [where this = sample_memory and ki = "''input''" and ko = "''output''"
       and inputs = "[''input'' \<mapsto> JStr ''Hello'']"
       and outputs = "[''output'' \<mapsto> JStr ''Hi there'']"
       and m = "HumanMessage (JStr ''Hello'')"
       and w = failing_world and e = "Error ''connection terminated''" and fs = "[]"
       and stringify = "\<lambda>_. []"]
  by (simp add: sample_memory_def sample_history_def failing_world_def property_def
        session_key_def)

text \<open>
  C7. Without a history (no argument, or an argument whose \<^verbatim>\<open>chatHistory\<close> is
  absent or null) the constructor throws its configuration error; with a history it
  returns the adapter on that history. The constructor is a function of its argument
  alone: it is not given the world, so it makes no call to the log.
\<close>

theorem constructor_requires_history:
  "(Option.bind input in_chatHistory = None \<longrightarrow>
      new_PostgresToolAwareMemory input =
        Inl (Error ''PostgresChatMessageHistory instance is required for PostgresToolAwareMemory''))
   \<and> (\<forall>h. Option.bind input in_chatHistory = Some h \<longrightarrow>
          (\<exists>m. new_PostgresToolAwareMemory input = Inr m \<and> history m = h \<and> chatHistory m = h))"
  by (simp add: new_PostgresToolAwareMemory_def)

theorem constructor_requires_history_witness:
  "new_PostgresToolAwareMemory None =
     Inl (Error ''PostgresChatMessageHistory instance is required for PostgresToolAwareMemory'')
   \<and> new_PostgresToolAwareMemory
        (Some \<lparr> in_memoryKey = Some ''k'', in_inputKey = None, in_outputKey = None,
                 in_chatHistory = None, in_returnMessages = None \<rparr>) =
     Inl (Error ''PostgresChatMessageHistory instance is required for PostgresToolAwareMemory'')
   \<and> (\<exists>m. new_PostgresToolAwareMemory
              (Some \<lparr> in_memoryKey = None, in_inputKey = None, in_outputKey = None,
                       in_chatHistory = Some sample_history, in_returnMessages = None \<rparr>) = Inr m
          \<and> history m = sample_history \<and> chatHistory m = sample_history)"
  using constructor_requires_history [of None]
    constructor_requires_history
      [of "Some \<lparr> in_memoryKey = Some ''k'', in_inputKey = None, in_outputKey = None,
                    in_chatHistory = None, in_returnMessages = None \<rparr>"]
    constructor_requires_history
      [of "Some \<lparr> in_memoryKey = None, in_inputKey = None, in_outputKey = None,
                    in_chatHistory = Some sample_history, in_returnMessages = None \<rparr>"]
  by simp

text \<open>
  C8. \<^verbatim>\<open>clear\<close> is the \<^verbatim>\<open>clear\<close> of the log of the adapter's session: one call to
  the log, after which \<^verbatim>\<open>loadMemoryVariables\<close> returns the empty sequence for that
  session, and the log of every other session is what it was.
\<close>

theorem clear_empties_own_session_only:
  assumes "faults w = []"
  shows "fst (clear this w) = Inr () \<and>
         calls (snd (clear this w)) = calls w @ [Clear (history this)] \<and>
         fst (loadMemoryVariables this vals (snd (clear this w))) =
           Inr [memoryKey this \<mapsto> JArr []] \<and>
         (\<forall>key. key \<noteq> session_key (history this) \<longrightarrow>
            tables (snd (clear this w)) key = tables w key)"
  using assms
  by (simp add: clear_def clear_log_def next_fault_def issue_def loadMemoryVariables_ok)


theorem clear_empties_own_session_only_witness:
  "faults two_sessions_world = [] \<and>
   fst (clear sample_memory two_sessions_world) = Inr () \<and>
   fst (loadMemoryVariables sample_memory Map.empty (snd (clear sample_memory two_sessions_world))) =
     Inr [''chat_history'' \<mapsto> JArr []] \<and>
   (''n8n_chat_histories'', ''s2'') \<noteq> session_key (history sample_memory) \<and>
   tables (snd (clear sample_memory two_sessions_world)) (''n8n_chat_histories'', ''s2'') =
     [HumanMessage (JStr ''Bonjour'')]"
  using clear_empties_own_session_only
    [where w = two_sessions_world and this = sample_memory and vals = Map.empty]
  by (simp add: sample_memory_def sample_history_def two_sessions_world_def session_key_def)

text \<open>
  C9. When the input key is unset (\<^verbatim>\<open>undefined\<close> or empty) or the value under it is
  falsy, the first half of \<^verbatim>\<open>saveContext\<close> leaves the world as it is (no call, no
  message) and the call is its second half alone; likewise for the output key and the
  second half. The empty string, \<^verbatim>\<open>null\<close>, \<^verbatim>\<open>0\<close>, \<^verbatim>\<open>false\<close> and \<^verbatim>\<open>undefined\<close>
  (a property that is absent) are falsy.
\<close>

theorem falsy_or_unset_skips_append:
  "((inputKey this = None \<or> inputKey this = Some [] \<or>
     (\<exists>k. inputKey this = Some k \<and> \<not> truthy (property inputs k))) \<longrightarrow>
      saveInput this inputs w = (Inr (), w) \<and>
      saveContext stringify this inputs outputs w = saveOutput stringify this outputs w) \<and>
   ((outputKey this = None \<or> outputKey this = Some [] \<or>
     (\<exists>k. outputKey this = Some k \<and> \<not> truthy (property outputs k))) \<longrightarrow>
      saveOutput stringify this outputs w = (Inr (), w) \<and>
      saveContext stringify this inputs outputs w = saveInput this inputs w) \<and>
   \<not> truthy (JStr []) \<and> \<not> truthy JNull \<and> \<not> truthy (JNum 0) \<and> \<not> truthy (JBool False) \<and>
   \<not> truthy JUndefined"
proof -
  have in_skip: "saveInput this inputs w = (Inr (), w) \<and>
      saveContext stringify this inputs outputs w = saveOutput stringify this outputs w"
    if "inputKey this = None \<or> inputKey this = Some [] \<or>
     (\<exists>k. inputKey this = Some k \<and> \<not> truthy (property inputs k))"
  proof -
    have "saveInput this inputs w = (Inr (), w)"
      using that by (auto simp add: saveInput_def io_return_def)
    then show ?thesis by (simp add: saveContext_def io_bind_def)
  qed
  have out_skip: "saveOutput stringify this outputs w = (Inr (), w) \<and>
      saveContext stringify this inputs outputs w = saveInput this inputs w"
    if "outputKey this = None \<or> outputKey this = Some [] \<or>
     (\<exists>k. outputKey this = Some k \<and> \<not> truthy (property outputs k))"
  proof -
    have "saveOutput stringify this outputs = io_return ()"
      using that by (auto simp add: saveOutput_def)
    then show ?thesis by (simp add: saveContext_def io_bind_return) (simp add: io_return_def)
  qed
  from in_skip out_skip show ?thesis by simp
qed


theorem falsy_or_unset_skips_append_witness:
  "inputKey sample_memory = Some ''input'' \<and>
   \<not> truthy (property [''input'' \<mapsto> JStr []] ''input'') \<and>
   outputKey sample_memory = Some ''output'' \<and>
   \<not> truthy (property [''output'' \<mapsto> JNum 0] ''output'') \<and>
   saveContext (\<lambda>_. []) sample_memory [''input'' \<mapsto> JStr []] [''output'' \<mapsto> JNum 0]
     two_sessions_world = (Inr (), two_sessions_world)"
  using falsy_or_unset_skips_append
    [where this = sample_memory and inputs = "[''input'' \<mapsto> JStr []]"
       and outputs = "[''output'' \<mapsto> JNum 0]" and w = two_sessions_world
       and stringify = "\<lambda>_. []"]
  by (auto simp add: sample_memory_def property_def)

text \<open>
  C10. When the output key is set and \<^verbatim>\<open>outputs[outputKey]\<close> is the empty array, the
  second half of \<^verbatim>\<open>saveContext\<close> is the call \<^verbatim>\<open>addMessages([])\<close>: that one call is
  made, no log changes, and after \<^verbatim>\<open>saveContext\<close> the logs are as its first half left
  them, so no AI message with the text \<^verbatim>\<open>[]\<close> has been added.
\<close>

theorem empty_sequence_takes_sequence_branch:
  assumes "outputKey this = Some k" and "k \<noteq> []" and "outputs k = Some (JArr [])"
  shows "saveOutput stringify this outputs w = addMessages (history this) [] w \<and>
         calls (snd (saveOutput stringify this outputs w)) =
           calls w @ [AddMessages (history this) []] \<and>
         tables (snd (saveOutput stringify this outputs w)) = tables w \<and>
         tables (snd (saveContext stringify this inputs outputs w)) =
           tables (snd (saveInput this inputs w))"
proof -
  have branch: "saveOutput stringify this outputs = addMessages (history this) []"
    using assms by (simp add: saveOutput_def addOutput_def property_def)
  have same: "tables (snd (addMessages (history this) [] w')) = tables w'" for w'
    by (simp add: addMessages_def issue_def split: option.splits)
  have "tables (snd (saveContext stringify this inputs outputs w)) =
           tables (snd (saveInput this inputs w))"
    by (cases "saveInput this inputs w"; cases "fst (saveInput this inputs w)")
       (simp_all add: saveContext_def io_bind_def branch same)
  then show ?thesis
    by (simp add: branch same) (simp add: addMessages_def issue_def split: option.splits)
qed

theorem empty_sequence_takes_sequence_branch_witness:
  "outputKey sample_memory = Some ''output'' \<and> ''output'' \<noteq> [] \<and>
   [''output'' \<mapsto> JArr []] ''output'' = Some (JArr []) \<and>
   calls (snd (saveOutput (\<lambda>_. ''[]'') sample_memory [''output'' \<mapsto> JArr []] empty_world)) =
     [AddMessages sample_history []] \<and>
   tables (snd (saveContext (\<lambda>_. ''[]'') sample_memory Map.empty [''output'' \<mapsto> JArr []]
                  empty_world)) (''n8n_chat_histories'', ''s1'') = []"
  using empty_sequence_takes_sequence_branch
    [where this = sample_memory and k = "''output''" and outputs = "[''output'' \<mapsto> JArr []]"
       and w = empty_world and stringify = "\<lambda>_. ''[]''" and inputs = Map.empty]
  by (simp add: sample_memory_def empty_world_def saveInput_def io_return_def property_def
        addMessages_def next_fault_def issue_def)

end
